theory Spec2Isabelle
  imports Complex_Main "HOL-Library.Sublist"
begin

section \<open>JavaScript values\<close>

text \<open>
  The server handles values that come from outside: the JSON body of a request, the
  account descriptor returned by the identity provider, the messages returned by the
  mail API, the JSON text returned by the analysis service. They are modelled by one
  datatype of JavaScript values. A number is kept as a rational or one of the three
  special values; the code only tests numbers for truthiness and renders them to text.
  An object is an association list, in insertion order and with distinct keys. Strings
  are lists of bytes (UTF-8); the patterns that the code matches are ASCII, so that
  matching bytes is matching characters.
\<close>

datatype jsnum = NaN | PosInfinity | NegInfinity | Finite rat

datatype jsval =
    Undefined
  | Null
  | Bool bool
  | Num jsnum
  | Str string
  | Arr "jsval list"
  | Obj "(string \<times> jsval) list"

text \<open>
  What a \<^verbatim>\<open>throw\<close> or a rejected promise carries. The code distinguishes one class only
  (\<^verbatim>\<open>error instanceof msal.InteractionRequiredAuthError\<close>); the other constructors
  record where an error comes from: the identity-provider client, the mail client (which
  wraps every failure of a request into its own error class), the analysis client, and
  the two errors the language itself raises here.
\<close>

datatype exn =
    InteractionRequiredAuthError string
  | OtherAuthError string
  | GraphError string
  | GenerativeError string
  | TypeError
  | SyntaxError

fun is_InteractionRequiredAuthError :: "exn \<Rightarrow> bool" where
  "is_InteractionRequiredAuthError (InteractionRequiredAuthError m) = True"
| "is_InteractionRequiredAuthError e = False"

text \<open>Truthiness, as tested by \<^verbatim>\<open>if (v)\<close> and \<^verbatim>\<open>!v\<close>.\<close>

fun truthy :: "jsval \<Rightarrow> bool" where
  "truthy Undefined = False"
| "truthy Null = False"
| "truthy (Bool b) = b"
| "truthy (Num n) = (n \<noteq> NaN \<and> n \<noteq> Finite 0)"
| "truthy (Str s) = (s \<noteq> [])"
| "truthy (Arr xs) = True"
| "truthy (Obj kvs) = True"

text \<open>
  Property access \<^verbatim>\<open>v.k\<close>, for the property names the server reads (\<^verbatim>\<open>searchQuery\<close>,
  \<^verbatim>\<open>value\<close>, \<^verbatim>\<open>body\<close>, \<^verbatim>\<open>content\<close>, \<^verbatim>\<open>subject\<close>): none of them is defined by a prototype, so
  on a string, a number, a boolean or an array the result is \<^verbatim>\<open>undefined\<close>; on
  \<^verbatim>\<open>undefined\<close> and \<^verbatim>\<open>null\<close> the access raises a TypeError.
\<close>

fun get_prop :: "jsval \<Rightarrow> string \<Rightarrow> exn + jsval" where
  "get_prop Undefined k = Inl TypeError"
| "get_prop Null k = Inl TypeError"
| "get_prop (Obj kvs) k = Inr (case map_of kvs k of None \<Rightarrow> Undefined | Some v \<Rightarrow> v)"
| "get_prop v k = Inr Undefined"

text \<open>
  The object literal \<^verbatim>\<open>{ ...email, analysis }\<close>: the own properties of \<^verbatim>\<open>email\<close> in their
  order, then the property \<^verbatim>\<open>analysis\<close>, which replaces the value of a property of that
  name where it stands, or is added at the end. Spreading a value that is not an object
  copies nothing (the indices of an array or a string apart, which the server never
  reaches: \<^verbatim>\<open>email.body.content\<close> has raised before).
\<close>

fun set_prop :: "string \<Rightarrow> jsval \<Rightarrow> (string \<times> jsval) list \<Rightarrow> (string \<times> jsval) list" where
  "set_prop k v [] = [(k, v)]"
| "set_prop k v ((k', v') # kvs) =
     (if k' = k then (k, v) # kvs else (k', v') # set_prop k v kvs)"

fun own_props :: "jsval \<Rightarrow> (string \<times> jsval) list" where
  "own_props (Obj kvs) = kvs"
| "own_props v = []"

definition spread_with_analysis :: "jsval \<Rightarrow> jsval \<Rightarrow> jsval" where
  "spread_with_analysis email analysis = Obj (set_prop ''analysis'' analysis (own_props email))"

section \<open>String operations\<close>

text \<open>
  \<^verbatim>\<open>s.replace(/pat/g, '')\<close> for a pattern without metacharacters: every occurrence of
  \<open>pat\<close>, found from left to right and not overlapping an earlier one, is removed.
\<close>

function remove_all :: "string \<Rightarrow> string \<Rightarrow> string" where
  "remove_all pat [] = []"
| "remove_all pat (c # cs) =
     (if pat \<noteq> [] \<and> prefix pat (c # cs)
      then remove_all pat (drop (length pat) (c # cs))
      else c # remove_all pat cs)"
  by pat_completeness auto
termination
  by (relation "measure (\<lambda>(pat, s). length s)") auto

text \<open>
  \<^verbatim>\<open>s.replace(/<[^>]*>?/gm, '')\<close>: from each \<^verbatim>\<open><\<close> everything up to and including the next
  \<^verbatim>\<open>>\<close> is removed, or everything up to the end of the string when no \<^verbatim>\<open>>\<close> follows.
\<close>

definition after_tag :: "string \<Rightarrow> string" where
  "after_tag cs = (case dropWhile (\<lambda>x. x \<noteq> CHR ''>'') cs of [] \<Rightarrow> [] | x # r \<Rightarrow> r)"

lemma length_after_tag: "length (after_tag cs) \<le> length cs"
proof (cases "dropWhile (\<lambda>x. x \<noteq> CHR ''>'') cs")
  case Nil
  show ?thesis
    unfolding after_tag_def Nil by simp
next
  case (Cons x r)
  have "length (dropWhile (\<lambda>x. x \<noteq> CHR ''>'') cs) \<le> length cs"
    by (rule length_dropWhile_le)
  then have "length (x # r) \<le> length cs"
    unfolding Cons .
  then show ?thesis
    unfolding after_tag_def Cons by simp
qed

function strip_tags :: "string \<Rightarrow> string" where
  "strip_tags [] = []"
| "strip_tags (c # cs) =
     (if c = CHR ''<'' then strip_tags (after_tag cs) else c # strip_tags cs)"
  by pat_completeness auto
termination
  by (relation "measure length") (auto simp: length_after_tag less_Suc_eq_le)

text \<open>
  \<^verbatim>\<open>s.trim()\<close> removes the white space and line terminators of the language from both
  ends. They are listed here in UTF-8: tab, line feed, vertical tab, form feed, carriage
  return, space, U+00A0, U+1680, U+2000 to U+200A, U+2028, U+2029, U+202F, U+205F,
  U+3000 and U+FEFF.
\<close>

definition js_white_space :: "string list" where
  "js_white_space =
     [[CHR 0x09], [CHR 0x0A], [CHR 0x0B], [CHR 0x0C], [CHR 0x0D], [CHR 0x20],
      [CHR 0xC2, CHR 0xA0],
      [CHR 0xE1, CHR 0x9A, CHR 0x80],
      [CHR 0xE2, CHR 0x80, CHR 0x80], [CHR 0xE2, CHR 0x80, CHR 0x81],
      [CHR 0xE2, CHR 0x80, CHR 0x82], [CHR 0xE2, CHR 0x80, CHR 0x83],
      [CHR 0xE2, CHR 0x80, CHR 0x84], [CHR 0xE2, CHR 0x80, CHR 0x85],
      [CHR 0xE2, CHR 0x80, CHR 0x86], [CHR 0xE2, CHR 0x80, CHR 0x87],
      [CHR 0xE2, CHR 0x80, CHR 0x88], [CHR 0xE2, CHR 0x80, CHR 0x89],
      [CHR 0xE2, CHR 0x80, CHR 0x8A],
      [CHR 0xE2, CHR 0x80, CHR 0xA8], [CHR 0xE2, CHR 0x80, CHR 0xA9],
      [CHR 0xE2, CHR 0x80, CHR 0xAF],
      [CHR 0xE2, CHR 0x81, CHR 0x9F],
      [CHR 0xE3, CHR 0x80, CHR 0x80],
      [CHR 0xEF, CHR 0xBB, CHR 0xBF]]"

definition strip_lead :: "string list \<Rightarrow> string \<Rightarrow> string option" where
  "strip_lead ws s =
     map_option (\<lambda>w. drop (length w) s) (find (\<lambda>w. w \<noteq> [] \<and> prefix w s) ws)"

lemma strip_lead_shorter: "strip_lead ws s = Some r \<Longrightarrow> length r < length s"
proof -
  assume "strip_lead ws s = Some r"
  then obtain w where w: "find (\<lambda>w. w \<noteq> [] \<and> prefix w s) ws = Some w" and r: "r = drop (length w) s"
    by (auto simp: strip_lead_def)
  from w have "w \<noteq> []" and "prefix w s"
    by (auto simp: find_Some_iff)
  then have "length w \<noteq> 0" and "length w \<le> length s"
    by (simp_all add: prefix_length_le)
  then have "length s - length w < length s"
    by arith
  with r show ?thesis by simp
qed

function trim_lead :: "string list \<Rightarrow> string \<Rightarrow> string" where
  "trim_lead ws s = (case strip_lead ws s of None \<Rightarrow> s | Some r \<Rightarrow> trim_lead ws r)"
  by pat_completeness auto
termination
  by (relation "measure (\<lambda>(ws, s). length s)") (auto simp: strip_lead_shorter)

definition js_trim :: "string \<Rightarrow> string" where
  "js_trim s = rev (trim_lead (map rev js_white_space) (rev (trim_lead js_white_space s)))"

section \<open>The environment of the server\<close>

text \<open>
  The server talks to three services through client libraries: the identity provider
  (\<^verbatim>\<open>pca\<close>), the mail API (\<^verbatim>\<open>graphClient\<close>) and the analysis service (\<^verbatim>\<open>model\<close>). Their
  answers are parameters of the model, as are three operations of the language that are
  not rewritten here: \<^verbatim>\<open>JSON.parse\<close>, and the conversion to a string of a number and of an
  object or array (which may raise a TypeError).
\<close>

record auth_result =
  account :: jsval
  accessToken :: string

record url_request =
  ur_scopes :: "string list"
  ur_redirectUri :: string

record code_request =
  cr_code :: jsval
  cr_scopes :: "string list"
  cr_redirectUri :: string

record silent_request =
  sr_account :: jsval
  sr_scopes :: "string list"

record graph_request =
  gr_path :: string
  gr_select :: string
  gr_top :: nat
  gr_search :: "string option"

text \<open>
  \<^verbatim>\<open>acquireTokenByCode\<close> and \<^verbatim>\<open>acquireTokenSilent\<close> resolve with an authentication result or
  with \<^verbatim>\<open>null\<close>, or reject. A request of the mail client resolves with the parsed response
  or rejects with the client's own error. \<^verbatim>\<open>generateContent\<close> is indexed by the position of
  the item in the batch, so that two items with the same text may be answered
  differently; it rejects, or resolves with a response whose \<^verbatim>\<open>text()\<close> returns a string or
  raises.
\<close>

record env =
  NODE_ENV :: "string option"
  getAuthCodeUrl :: "url_request \<Rightarrow> exn + string"
  acquireTokenByCode :: "code_request \<Rightarrow> exn + auth_result option"
  acquireTokenSilent :: "silent_request \<Rightarrow> exn + auth_result option"
  graph_get :: "string \<Rightarrow> graph_request \<Rightarrow> string + jsval"
  generateContent :: "nat \<Rightarrow> string \<Rightarrow> exn + (exn + string)"
  JSON_parse :: "string \<Rightarrow> jsval option"
  number_to_string :: "jsnum \<Rightarrow> string"
  object_to_string :: "jsval \<Rightarrow> string option"

text \<open>The conversion of a template literal \<^verbatim>\<open>${v}\<close>.\<close>

fun ToString :: "env \<Rightarrow> jsval \<Rightarrow> exn + string" where
  "ToString env Undefined = Inr ''undefined''"
| "ToString env Null = Inr ''null''"
| "ToString env (Bool b) = Inr (if b then ''true'' else ''false'')"
| "ToString env (Num n) = Inr (number_to_string env n)"
| "ToString env (Str s) = Inr s"
| "ToString env v = (case object_to_string env v of None \<Rightarrow> Inl TypeError | Some s \<Rightarrow> Inr s)"

text \<open>What the server writes with \<^verbatim>\<open>console.log\<close> and \<^verbatim>\<open>console.error\<close>.\<close>

datatype logarg = LStr string | LErr exn

datatype log_entry = ConsoleLog "logarg list" | ConsoleError "logarg list"

text \<open>The calls made to the three services, in the order in which they are issued.\<close>

datatype call =
    GetAuthCodeUrl url_request
  | AcquireTokenByCode code_request
  | AcquireTokenSilent silent_request
  | GraphGet string graph_request
  | GenerateContent nat string

text \<open>
  A response: a status and what was handed to \<^verbatim>\<open>res.send\<close>, \<^verbatim>\<open>res.json\<close> or
  \<^verbatim>\<open>res.redirect\<close>. A handler replies, or its promise rejects outside every
  \<^verbatim>\<open>try\<close>, or it waits for ever for a call that does not complete.
\<close>

datatype body = SendText string | SendJson jsval | SendError exn | Redirect string

record response =
  status :: nat
  body :: body

datatype reply = Replied response | Unhandled exn | NoReply

text \<open>
  The session of a request, as the session middleware presents it: the handlers read
  and write the one property \<^verbatim>\<open>account\<close>, which is \<^verbatim>\<open>undefined\<close> in a new session. The
  store that keeps sessions between requests belongs to the middleware.
\<close>

record session =
  session_account :: jsval

definition new_session :: session where
  "new_session = \<lparr>session_account = Undefined\<rparr>"

record outcome =
  reply :: reply
  sess :: session
  console :: "log_entry list"
  calls :: "call list"

definition respond :: "session \<Rightarrow> log_entry list \<Rightarrow> call list \<Rightarrow> nat \<Rightarrow> body \<Rightarrow> outcome" where
  "respond s l c st b =
     \<lparr>reply = Replied \<lparr>status = st, body = b\<rparr>, sess = s, console = l, calls = c\<rparr>"

section \<open>Configuration\<close>

definition isProduction :: "env \<Rightarrow> bool" where
  "isProduction env = (NODE_ENV env = Some ''production'')"

definition redirectUri :: "env \<Rightarrow> string" where
  "redirectUri env =
     (if isProduction env then ''https://backend-1iqu.onrender.com/redirect''
      else ''http://localhost:3000/redirect'')"

definition scopes :: "string list" where
  "scopes = [''Mail.Read'', ''User.Read'', ''offline_access'']"

text \<open>
  The session between two requests. The session middleware is set up with
  \<^verbatim>\<open>cookie: { secure: process.env.NODE_ENV === 'production', ... }\<close>; the server listens
  with \<^verbatim>\<open>app.listen\<close>, that is over plain HTTP, and the application sets no
  \<^verbatim>\<open>trust proxy\<close>, so that no request counts as secure. The middleware keeps the session
  of every request, but it puts the session cookie on the response only if the cookie
  is not secure or the request is. A client that was sent the cookie presents it with
  its next request and finds the session as the last request left it; a client that was
  not sent it starts from a new session.
\<close>

definition cookie_secure :: "env \<Rightarrow> bool" where
  "cookie_secure env = (NODE_ENV env = Some ''production'')"

definition connection_secure :: bool where
  "connection_secure = False"

definition session_cookie_issued :: "env \<Rightarrow> bool" where
  "session_cookie_issued env = (if cookie_secure env then connection_secure else True)"

definition next_request_session :: "env \<Rightarrow> session \<Rightarrow> session" where
  "next_request_session env s = (if session_cookie_issued env then s else new_session)"

section \<open>The analysis of one text: \<^verbatim>\<open>getGeminiAnalysis\<close>\<close>

text \<open>
  The function is the same in \<^verbatim>\<open>server.js\<close> and in the earlier copy of the file that
  calls the service (the second unnamed part), up to the summary of the record returned
  on failure; the handler of \<^verbatim>\<open>POST /fetch-emails\<close> is the same text in both. The oldest
  copy (the first unnamed part) has a placeholder in place of the call and is not
  modelled.
\<close>

datatype source_variant = Server_js | Part_001

abbreviation nl :: char where
  "nl \<equiv> CHR 0x0A"

definition prompt_head :: string where
  \<open>prompt_head =
     [nl] @
     ''        Analyze the following construction-related email. Extract key information and respond ONLY with a valid JSON object.'' @
     [nl] @
     ''        The JSON object must have these exact keys: "summary", "actionItems", "sentiment", and "docType".'' @
     [nl] @
     ''        - "summary": A concise, professional summary of the email's main purpose.'' @
     [nl] @
     ''        - "actionItems": An array of strings, with each string being a specific, actionable task, question, or deadline. If no action items, return an empty array.'' @
     [nl] @
     ''        - "sentiment": Classify the sentiment as "Positive", "Negative", or "Neutral".'' @
     [nl] @
     ''        - "docType": Classify the document type (e.g., "RFI", "Change Order", "Submittal", "Invoice", "General Correspondence").'' @
     [nl] @
     [nl] @
     ''        Email Content:'' @
     [nl] @
     ''        ---'' @
     [nl] @
     ''        ''\<close>

definition prompt_tail :: string where
  \<open>prompt_tail =
     [nl] @
     ''        ---'' @
     [nl] @
     ''    ''\<close>

definition prompt :: "string \<Rightarrow> string" where
  "prompt emailContent = prompt_head @ emailContent @ prompt_tail"

definition jsonString :: "string \<Rightarrow> string" where
  \<open>jsonString text = js_trim (remove_all ''```'' (remove_all ''```json'' text))\<close>

text \<open>
  The \<^verbatim>\<open>try\<close> block: the call, \<^verbatim>\<open>response.text()\<close>, the clean-up of the text and
  \<^verbatim>\<open>JSON.parse\<close>, whose value is returned as it is.
\<close>

definition analysis_try :: "env \<Rightarrow> nat \<Rightarrow> string \<Rightarrow> exn + jsval" where
  "analysis_try env i emailContent =
     (case generateContent env i (prompt emailContent) of
        Inl e \<Rightarrow> Inl e
      | Inr response \<Rightarrow>
          (case response of
             Inl e \<Rightarrow> Inl e
           | Inr text \<Rightarrow>
               (case JSON_parse env (jsonString text) of
                  None \<Rightarrow> Inl SyntaxError
                | Some v \<Rightarrow> Inr v)))"

definition failure_summary :: "source_variant \<Rightarrow> string" where
  "failure_summary v =
     (case v of Server_js \<Rightarrow> ''AI analysis failed.''
      | Part_001 \<Rightarrow> ''AI analysis failed for this email.'')"

definition fallback :: "source_variant \<Rightarrow> jsval" where
  "fallback v =
     Obj [(''summary'', Str (failure_summary v)), (''actionItems'', Arr []),
          (''sentiment'', Str ''Neutral''), (''docType'', Str ''Unknown'')]"

text \<open>
  The value the returned promise resolves with, and what the function prints: one line
  when it is called, and one more, when the call has completed, if the \<^verbatim>\<open>catch\<close> branch
  ran.
\<close>

definition getGeminiAnalysis :: "source_variant \<Rightarrow> env \<Rightarrow> nat \<Rightarrow> string \<Rightarrow> jsval" where
  "getGeminiAnalysis v env i emailContent =
     (case analysis_try env i emailContent of
        Inl error \<Rightarrow> fallback v
      | Inr parsed \<Rightarrow> parsed)"

definition sending_line :: log_entry where
  "sending_line = ConsoleLog [LStr ''Sending content to Gemini for real analysis...'']"

definition getGeminiAnalysis_printed :: "env \<Rightarrow> nat \<Rightarrow> string \<Rightarrow> log_entry list" where
  "getGeminiAnalysis_printed env i emailContent =
     (case analysis_try env i emailContent of
        Inl error \<Rightarrow> [ConsoleError [LStr ''Error calling Gemini API:'', LErr error]]
      | Inr parsed \<Rightarrow> [])"

section \<open>The routes of the session\<close>

text \<open>
  \<^verbatim>\<open>GET /login\<close>: three lines of log, then the consent URL is asked for and the browser
  is redirected to it; a failure is logged and sent with status 500.
\<close>

definition login :: "env \<Rightarrow> session \<Rightarrow> outcome" where
  "login env s =
     (let authCodeUrlParameters = \<lparr>ur_scopes = scopes, ur_redirectUri = redirectUri env\<rparr>;
          l = [ConsoleLog [LStr ''--- LOGIN ATTEMPT ---''],
               ConsoleLog [LStr (''NODE_ENV is: '' @
                 (case NODE_ENV env of None \<Rightarrow> ''undefined'' | Some x \<Rightarrow> x))],
               ConsoleLog [LStr (''Generated redirectUri is: '' @ redirectUri env)]];
          c = [GetAuthCodeUrl authCodeUrlParameters]
      in case getAuthCodeUrl env authCodeUrlParameters of
           Inr response \<Rightarrow> respond s l c 302 (Redirect response)
         | Inl error \<Rightarrow>
             respond s (l @ [ConsoleError [LStr ''Error getting auth code URL:'', LErr error]])
               c 500 (SendError error))"

text \<open>
  \<^verbatim>\<open>GET /redirect\<close>: the code of the query is exchanged; on success
  \<^verbatim>\<open>req.session.account = response.account\<close> and the window-closing page is sent. The
  \<^verbatim>\<open>catch\<close> follows the \<^verbatim>\<open>then\<close>, so it also receives the TypeError of reading
  \<^verbatim>\<open>account\<close> from \<^verbatim>\<open>null\<close>.
\<close>

definition redirect :: "env \<Rightarrow> jsval \<Rightarrow> session \<Rightarrow> outcome" where
  "redirect env code s =
     (let tokenRequest =
            \<lparr>cr_code = code, cr_scopes = scopes, cr_redirectUri = redirectUri env\<rparr>;
          l = [ConsoleLog [LStr ''--- REDIRECT HIT ---'']];
          c = [AcquireTokenByCode tokenRequest];
          failed = (\<lambda>error.
            respond s (l @ [ConsoleError [LStr ''Error acquiring token by code:'', LErr error]])
              c 500 (SendError error))
      in case acquireTokenByCode env tokenRequest of
           Inl error \<Rightarrow> failed error
         | Inr None \<Rightarrow> failed TypeError
         | Inr (Some response) \<Rightarrow>
             respond (s\<lparr>session_account := account response\<rparr>) l c 200
               (SendText ''<script>window.close();</script>''))"

text \<open>
  \<^verbatim>\<open>GET /logout\<close>: \<^verbatim>\<open>req.session.destroy\<close> removes the session; the callback ignores its
  argument and sends 200. The next request of the browser starts from a new session.
\<close>

definition logout :: "session \<Rightarrow> outcome" where
  "logout s = respond new_session [] [] 200 (SendText ''Successfully logged out'')"

text \<open>\<^verbatim>\<open>GET /me\<close>.\<close>

definition me :: "session \<Rightarrow> outcome" where
  "me s =
     (if truthy (session_account s)
      then respond s [] [] 200
             (SendJson (Obj [(''loggedIn'', Bool True), (''account'', session_account s)]))
      else respond s [] [] 200 (SendJson (Obj [(''loggedIn'', Bool False)])))"

section \<open>Joining the analyses: \<^verbatim>\<open>Promise.all\<close>\<close>

text \<open>
  \<^verbatim>\<open>Promise.all\<close> keeps one slot per promise. It is resolved with the slots once all are
  filled, and rejected by the first promise that rejects. The promises settle one after
  the other, in an order the program does not choose: the function reads the list of
  these events, each the index of a promise and what it settled with, and returns the
  settlement together with the events that come after it, or nothing when the events
  end before it has settled.
\<close>

fun Promise_all ::
  "(nat \<times> (exn + 'a)) list \<Rightarrow> 'a option list \<Rightarrow>
     ((exn + 'a list) \<times> (nat \<times> (exn + 'a)) list) option" where
  "Promise_all evs slots =
     (case those slots of
        Some vs \<Rightarrow> Some (Inr vs, evs)
      | None \<Rightarrow>
          (case evs of
             [] \<Rightarrow> None
           | (i, Inl e) # rest \<Rightarrow> Some (Inl e, rest)
           | (i, Inr v) # rest \<Rightarrow> Promise_all rest (slots[i := Some v])))"

declare Promise_all.simps [simp del]

text \<open>
  The order in which calls complete is given as a list of indices; an index counts at
  its first occurrence, and a call whose index does not occur never completes.
\<close>

fun first_occurrences :: "nat list \<Rightarrow> nat list \<Rightarrow> nat list" where
  "first_occurrences seen [] = []"
| "first_occurrences seen (i # js) =
     (if i \<in> set seen then first_occurrences seen js
      else i # first_occurrences (i # seen) js)"

section \<open>\<^verbatim>\<open>POST /fetch-emails\<close>\<close>

text \<open>
  The callback of \<^verbatim>\<open>messages.value.map\<close>. Up to its \<^verbatim>\<open>await\<close> it runs at once: it strips
  the markup of \<^verbatim>\<open>email.body.content\<close> and builds the text to analyse, or raises.
\<close>

definition contentToAnalyze :: "env \<Rightarrow> jsval \<Rightarrow> exn + string" where
  "contentToAnalyze env email =
     (case get_prop email ''body'' of
        Inl e \<Rightarrow> Inl e
      | Inr b \<Rightarrow>
          (case get_prop b ''content'' of
             Inl e \<Rightarrow> Inl e
           | Inr (Str content) \<Rightarrow>
               (let cleanBody = strip_tags content in
                case get_prop email ''subject'' of
                  Inl e \<Rightarrow> Inl e
                | Inr subject \<Rightarrow>
                    (case ToString env subject of
                       Inl e \<Rightarrow> Inl e
                     | Inr t \<Rightarrow> Inr (''Subject: '' @ t @ [nl] @ ''Body: '' @ cleanBody)))
           | Inr other \<Rightarrow> Inl TypeError))"

text \<open>
  What the promise returned by the callback for the item at index \<open>i\<close> settles with,
  what is printed when the callback is called and when its analysis completes, and the
  call it issues.
\<close>

definition callback_result :: "source_variant \<Rightarrow> env \<Rightarrow> nat \<Rightarrow> jsval \<Rightarrow> exn + jsval" where
  "callback_result v env i email =
     (case contentToAnalyze env email of
        Inl e \<Rightarrow> Inl e
      | Inr c \<Rightarrow> Inr (spread_with_analysis email (getGeminiAnalysis v env i c)))"

definition callback_first :: "env \<Rightarrow> nat \<Rightarrow> jsval \<Rightarrow> log_entry list" where
  "callback_first env i email =
     (case contentToAnalyze env email of Inl e \<Rightarrow> [] | Inr c \<Rightarrow> [sending_line])"

definition callback_last :: "env \<Rightarrow> nat \<Rightarrow> jsval \<Rightarrow> log_entry list" where
  "callback_last env i email =
     (case contentToAnalyze env email of
        Inl e \<Rightarrow> []
      | Inr c \<Rightarrow> getGeminiAnalysis_printed env i c)"

definition callback_calls :: "env \<Rightarrow> nat \<Rightarrow> jsval \<Rightarrow> call list" where
  "callback_calls env i email =
     (case contentToAnalyze env email of
        Inl e \<Rightarrow> []
      | Inr c \<Rightarrow> [GenerateContent i (prompt c)])"

text \<open>
  The callbacks all run, in the order of the items, before anything else happens. A call
  to the analysis service is a network call and completes in a later turn of the event
  loop: so the promises of the items that raised are rejected first, in the order of the
  items, and the others settle as their calls complete.
\<close>

definition settle_order :: "env \<Rightarrow> jsval list \<Rightarrow> nat list \<Rightarrow> nat list" where
  "settle_order env emails sched =
     [i \<leftarrow> [0..<length emails]. isl (contentToAnalyze env (emails ! i))] @
     first_occurrences []
       [i \<leftarrow> sched. i < length emails \<and> \<not> isl (contentToAnalyze env (emails ! i))]"

record attempt =
  settled :: "(exn + jsval list) option"
  printed_before :: "log_entry list"
  printed_after :: "log_entry list"
  contacted :: "call list"

definition failed :: "exn \<Rightarrow> call list \<Rightarrow> attempt" where
  "failed e c = \<lparr>settled = Some (Inl e), printed_before = [], printed_after = [], contacted = c\<rparr>"

definition analyse :: "source_variant \<Rightarrow> env \<Rightarrow> nat list \<Rightarrow> jsval list \<Rightarrow> call list \<Rightarrow> attempt" where
  "analyse v env sched emails c =
     (let n = length emails;
          events = map (\<lambda>i. (i, callback_result v env i (emails ! i))) (settle_order env emails sched);
          printed = (\<lambda>evs. concat (map (\<lambda>(i, r). callback_last env i (emails ! i)) evs));
          at_start = concat (map (\<lambda>i. callback_first env i (emails ! i)) [0..<n]);
          c' = c @ concat (map (\<lambda>i. callback_calls env i (emails ! i)) [0..<n])
      in case Promise_all events (replicate n None) of
           None \<Rightarrow>
             \<lparr>settled = None, printed_before = at_start @ printed events,
              printed_after = [], contacted = c'\<rparr>
         | Some (r, rest) \<Rightarrow>
             \<lparr>settled = Some r,
              printed_before = at_start @ printed (take (length events - length rest) events),
              printed_after = printed rest, contacted = c'\<rparr>)"

text \<open>The search clause: \<^verbatim>\<open>if (searchQuery)\<close>, then the query between double quotes.\<close>

definition search_clause :: "env \<Rightarrow> jsval \<Rightarrow> exn + string option" where
  "search_clause env searchQuery =
     (if truthy searchQuery
      then (case ToString env searchQuery of
              Inl e \<Rightarrow> Inl e
            | Inr t \<Rightarrow> Inr (Some ([CHR 0x22] @ t @ [CHR 0x22])))
      else Inr None)"

definition messagesRequest :: "string option \<Rightarrow> graph_request" where
  "messagesRequest srch =
     \<lparr>gr_path = ''/me/messages'', gr_select = ''id,subject,from,receivedDateTime,body'',
      gr_top = 10, gr_search = srch\<rparr>"

text \<open>The \<^verbatim>\<open>try\<close> block of the handler.\<close>

definition try_block :: "source_variant \<Rightarrow> env \<Rightarrow> nat list \<Rightarrow> jsval \<Rightarrow> jsval \<Rightarrow> attempt" where
  "try_block v env sched acct searchQuery =
     (let tokenRequest = \<lparr>sr_account = acct, sr_scopes = scopes\<rparr>;
          c1 = [AcquireTokenSilent tokenRequest]
      in case acquireTokenSilent env tokenRequest of
           Inl e \<Rightarrow> failed e c1
         | Inr None \<Rightarrow> failed TypeError c1
         | Inr (Some tokenResponse) \<Rightarrow>
             (case search_clause env searchQuery of
                Inl e \<Rightarrow> failed e c1
              | Inr srch \<Rightarrow>
                  (let c2 = c1 @ [GraphGet (accessToken tokenResponse) (messagesRequest srch)]
                   in case graph_get env (accessToken tokenResponse) (messagesRequest srch) of
                        Inl m \<Rightarrow> failed (GraphError m) c2
                      | Inr messages \<Rightarrow>
                          (case get_prop messages ''value'' of
                             Inl e \<Rightarrow> failed e c2
                           | Inr (Arr emails) \<Rightarrow> analyse v env sched emails c2
                           | Inr other \<Rightarrow> failed TypeError c2))))"

text \<open>
  The handler: the check of the session, the destructuring of the body (outside the
  \<^verbatim>\<open>try\<close>), the \<^verbatim>\<open>try\<close> block and the \<^verbatim>\<open>catch\<close>. It takes the variant of the source, the
  environment, the order in which the analysis calls complete, the body of the request
  and the session.
\<close>

definition fetch_emails :: "source_variant \<Rightarrow> env \<Rightarrow> nat list \<Rightarrow> jsval \<Rightarrow> session \<Rightarrow> outcome" where
  "fetch_emails v env sched req_body s =
     (if \<not> truthy (session_account s)
      then respond s [] [] 401 (SendText ''User not authenticated.'')
      else case get_prop req_body ''searchQuery'' of
             Inl e \<Rightarrow> \<lparr>reply = Unhandled e, sess = s, console = [], calls = []\<rparr>
           | Inr searchQuery \<Rightarrow>
               (let a = try_block v env sched (session_account s) searchQuery
                in case settled a of
                     None \<Rightarrow>
                       \<lparr>reply = NoReply, sess = s, console = printed_before a,
                        calls = contacted a\<rparr>
                   | Some (Inr analyzedEmails) \<Rightarrow>
                       respond s (printed_before a @ printed_after a) (contacted a) 200
                         (SendJson (Arr analyzedEmails))
                   | Some (Inl error) \<Rightarrow>
                       if is_InteractionRequiredAuthError error
                       then respond s (printed_before a @ printed_after a) (contacted a) 401
                              (SendText ''Session expired. Please log in again.'')
                       else respond s
                              (printed_before a @ [ConsoleError [LErr error]] @ printed_after a)
                              (contacted a) 500
                              (SendText ''Error fetching or analyzing emails.'')))"

section \<open>Notions used to state the properties\<close>


text \<open>
  What the caller, the session store and the log receive from a handler: everything but
  the calls made to the services.
\<close>

definition disclosed :: "outcome \<Rightarrow> reply \<times> session \<times> log_entry list" where
  "disclosed r = (reply r, sess r, console r)"

text \<open>
  The same answer of the identity provider, with the access token replaced by \<open>f\<close> of
  it.
\<close>

definition with_token ::
  "(string \<Rightarrow> string) \<Rightarrow> exn + auth_result option \<Rightarrow> exn + auth_result option" where
  "with_token f r =
     (case r of
        Inl e \<Rightarrow> Inl e
      | Inr None \<Rightarrow> Inr None
      | Inr (Some a) \<Rightarrow> Inr (Some (a\<lparr>accessToken := f (accessToken a)\<rparr>)))"

text \<open>
  The shape of an analysis result in the words of the specification: a record with a
  summary (a text), action items (a sequence of texts), a sentiment (one of Positive,
  Negative, Neutral) and a document type (a text).
\<close>

fun is_text :: "jsval \<Rightarrow> bool" where
  "is_text (Str s) = True"
| "is_text v = False"

definition analysis_shape :: "jsval \<Rightarrow> bool" where
  "analysis_shape v =
     (case v of
        Obj kvs \<Rightarrow>
          (case (map_of kvs ''summary'', map_of kvs ''actionItems'',
                 map_of kvs ''sentiment'', map_of kvs ''docType'') of
             (Some (Str summary), Some (Arr items), Some (Str sentiment), Some (Str docType)) \<Rightarrow>
               list_all is_text items \<and>
               sentiment \<in> set [''Positive'', ''Negative'', ''Neutral'']
           | other \<Rightarrow> False)
      | other \<Rightarrow> False)"

section \<open>A concrete environment\<close>

text \<open>
  The scenario of the specification: the code \<^verbatim>\<open>validcode\<close> is exchanged for the identity
  of Alice; three messages are fetched; the analysis of the second one fails, the two
  others are answered with a fenced JSON text. \<open>parse_table\<close> gives the value of
  \<^verbatim>\<open>JSON.parse\<close> on the two texts that occur.
\<close>

definition alice :: jsval where
  "alice = Obj [(''id'', Str ''u1''), (''name'', Str ''Alice'')]"

definition alice_session :: session where
  "alice_session = \<lparr>session_account = alice\<rparr>"

definition mail :: "string \<Rightarrow> string \<Rightarrow> string \<Rightarrow> jsval" where
  "mail ident subject content =
     Obj [(''id'', Str ident), (''subject'', Str subject),
          (''body'', Obj [(''contentType'', Str ''html''), (''content'', Str content)])]"

definition inbox :: "jsval list" where
  "inbox = [mail ''1'' ''RFI 12'' ''<p>Beam size?</p>'', mail ''2'' ''Invoice'' ''Due <b>Friday</b>'',
            mail ''3'' ''Hello'' ''See you'']"

definition answer_text :: string where
  \<open>answer_text = ''{"summary":"ok","actionItems":[],"sentiment":"Neutral","docType":"RFI"}''\<close>

definition answer :: jsval where
  "answer = Obj [(''summary'', Str ''ok''), (''actionItems'', Arr []),
                 (''sentiment'', Str ''Neutral''), (''docType'', Str ''RFI'')]"

definition parse_table :: "string \<Rightarrow> jsval option" where
  "parse_table s =
     (if s = answer_text then Some answer else if s = ''{}'' then Some (Obj []) else None)"

definition example_env :: env where
  \<open>example_env =
     \<lparr>NODE_ENV = None,
      getAuthCodeUrl = (\<lambda>r. Inr ''https://login.microsoftonline.com/common/oauth2/v2.0/authorize''),
      acquireTokenByCode = (\<lambda>r.
        if cr_code r = Str ''validcode''
        then Inr (Some \<lparr>account = alice, accessToken = ''token-1''\<rparr>)
        else Inl (OtherAuthError ''invalid_grant'')),
      acquireTokenSilent = (\<lambda>r. Inr (Some \<lparr>account = sr_account r, accessToken = ''token-2''\<rparr>)),
      graph_get = (\<lambda>t r. Inr (Obj [(''value'', Arr inbox)])),
      generateContent = (\<lambda>i p.
        if i = 1 then Inl (GenerativeError ''unavailable'')
        else Inr (Inr (''```json'' @ [nl] @ answer_text @ [nl] @ ''```''))),
      JSON_parse = parse_table,
      number_to_string = (\<lambda>n. ''0''),
      object_to_string = (\<lambda>v. Some ''[object Object]'')\<rparr>\<close>

definition inbox_texts :: "string list" where
  "inbox_texts =
     [''Subject: RFI 12'' @ [nl] @ ''Body: Beam size?'',
      ''Subject: Invoice'' @ [nl] @ ''Body: Due Friday'',
      ''Subject: Hello'' @ [nl] @ ''Body: See you'']"

text \<open>
  Variants of the environment: silent renewal asks for interaction, silent renewal fails
  otherwise, the mail API is unavailable, the analysis service answers every text with
  an empty JSON object, and the identity provider hands out another access token.
\<close>

definition expired_env :: env where
  "expired_env =
     example_env\<lparr>acquireTokenSilent := \<lambda>r. Inl (InteractionRequiredAuthError ''interaction_required'')\<rparr>"


definition offline_env :: env where
  "offline_env = example_env\<lparr>graph_get := \<lambda>t r. Inl ''ServiceUnavailable''\<rparr>"

definition terse_env :: env where
  "terse_env = example_env\<lparr>generateContent := \<lambda>i p. Inr (Inr ''{}'')\<rparr>"

definition other_token :: "string \<Rightarrow> string" where
  "other_token t = ''token-9''"

definition retokened_env :: env where
  "retokened_env =
     example_env\<lparr>acquireTokenSilent := \<lambda>rq. with_token other_token (acquireTokenSilent example_env rq),
                 acquireTokenByCode := \<lambda>rq. with_token other_token (acquireTokenByCode example_env rq),
                 graph_get := graph_get example_env\<rparr>"

text \<open>The same environment in production, and a message with its analysis.\<close>

definition production_env :: env where
  "production_env = example_env\<lparr>NODE_ENV := Some ''production''\<rparr>"

definition mail_with_analysis :: "string \<Rightarrow> string \<Rightarrow> string \<Rightarrow> jsval \<Rightarrow> jsval" where
  "mail_with_analysis ident subject content analysis =
     Obj [(''id'', Str ident), (''subject'', Str subject),
          (''body'', Obj [(''contentType'', Str ''html''), (''content'', Str content)]),
          (''analysis'', analysis)]"

section \<open>Auxiliary facts\<close>

lemma those_map_Some: "those (map Some ys) = Some ys"
  by (induction ys) simp_all

lemma those_None: "None \<in> set xs \<Longrightarrow> those xs = None"
  by (induction xs) (auto split: option.split)

lemma first_occurrences_set: "set (first_occurrences seen xs) = set xs - set seen"
  by (induction xs arbitrary: seen) auto

lemma first_occurrences_distinct: "distinct (first_occurrences seen xs)"
  by (induction xs arbitrary: seen) (auto simp: first_occurrences_set)

text \<open>
  When every promise is fulfilled, each exactly once, \<^verbatim>\<open>Promise.all\<close> is resolved with the
  values in the order of the promises, whatever the order of the events.
\<close>

lemma Promise_all_fulfilled:
  assumes "distinct order" and "length slots = n"
    and "\<forall>j<n. j \<in> set order \<longrightarrow> slots ! j = None"
    and "\<forall>j<n. j \<notin> set order \<longrightarrow> slots ! j = Some (f j)"
    and "set order \<subseteq> {..<n}"
  shows "Promise_all (map (\<lambda>i. (i, Inr (f i))) order) slots = Some (Inr (map f [0..<n]), [])"
  using assms
proof (induction order arbitrary: slots)
  case Nil
  then have "slots = map Some (map f [0..<n])"
    by (auto intro!: nth_equalityI)
  then have "those slots = Some (map f [0..<n])"
    by (simp only: those_map_Some)
  then show ?case
    by (simp add: Promise_all.simps)
next
  case (Cons i order)
  from Cons.prems have i: "i < n" "slots ! i = None"
    by auto
  with Cons.prems(2) have "None \<in> set slots"
    by (metis nth_mem)
  then have none: "those slots = None"
    by (rule those_None)
  have "Promise_all (map (\<lambda>i. (i, Inr (f i))) order) (slots[i := Some (f i)]) =
      Some (Inr (map f [0..<n]), [])"
  proof (rule Cons.IH)
    show "distinct order" using Cons.prems(1) by simp
    show "length (slots[i := Some (f i)]) = n" using Cons.prems(2) by simp
    show "\<forall>j<n. j \<in> set order \<longrightarrow> slots[i := Some (f i)] ! j = None"
    proof (intro allI impI)
      fix j assume j: "j < n" "j \<in> set order"
      with Cons.prems(1) have "j \<noteq> i" by auto
      moreover from j Cons.prems(3) have "slots ! j = None" by simp
      ultimately show "slots[i := Some (f i)] ! j = None" by simp
    qed
    show "\<forall>j<n. j \<notin> set order \<longrightarrow> slots[i := Some (f i)] ! j = Some (f j)"
    proof (intro allI impI)
      fix j assume j: "j < n" "j \<notin> set order"
      show "slots[i := Some (f i)] ! j = Some (f j)"
      proof (cases "j = i")
        case True
        with i Cons.prems(2) show ?thesis by simp
      next
        case False
        with j Cons.prems(4) have "slots ! j = Some (f j)" by simp
        with False show ?thesis by simp
      qed
    qed
    show "set order \<subseteq> {..<n}" using Cons.prems(5) by simp
  qed
  then show ?case
    by (subst Promise_all.simps) (simp add: none)
qed


lemma analyse_all_started:
  assumes wf: "\<forall>i<length emails. contentToAnalyze env (emails ! i) = Inr (texts ! i)"
    and complete: "\<forall>i<length emails. i \<in> set sched"
  shows "settled (analyse v env sched emails c) =
     Some (Inr (map (\<lambda>i. spread_with_analysis (emails ! i) (getGeminiAnalysis v env i (texts ! i)))
                 [0..<length emails]))"
proof -
  let ?n = "length emails"
  let ?val = "\<lambda>i. spread_with_analysis (emails ! i) (getGeminiAnalysis v env i (texts ! i))"
  let ?order = "first_occurrences [] [i \<leftarrow> sched. i < ?n]"
  have none_rejected: "[i \<leftarrow> [0..<?n]. isl (contentToAnalyze env (emails ! i))] = []"
    using wf by (simp add: filter_empty_conv)
  have started: "[i \<leftarrow> sched. i < ?n \<and> \<not> isl (contentToAnalyze env (emails ! i))] = [i \<leftarrow> sched. i < ?n]"
    using wf by (intro filter_cong) auto
  have order: "settle_order env emails sched = ?order"
    by (simp only: settle_order_def none_rejected started append_Nil)
  have set_order: "set ?order = {..<?n}"
    using complete by (auto simp: first_occurrences_set)
  have events: "map (\<lambda>i. (i, callback_result v env i (emails ! i))) ?order = map (\<lambda>i. (i, Inr (?val i))) ?order"
  proof (rule map_cong)
    fix i assume "i \<in> set ?order"
    with set_order have "i < ?n" by simp
    with wf show "(i, callback_result v env i (emails ! i)) = (i, Inr (?val i))"
      by (simp add: callback_result_def)
  qed simp
  have "Promise_all (map (\<lambda>i. (i, Inr (?val i))) ?order) (replicate ?n None) = Some (Inr (map ?val [0..<?n]), [])"
  proof (rule Promise_all_fulfilled)
    show "distinct ?order" by (rule first_occurrences_distinct)
    show "length (replicate ?n (None :: jsval option)) = ?n" by simp
    show "\<forall>j<?n. j \<in> set ?order \<longrightarrow> replicate ?n None ! j = (None :: jsval option)" by simp
    show "\<forall>j<?n. j \<notin> set ?order \<longrightarrow> replicate ?n None ! j = Some (?val j)"
      using set_order by simp
    show "set ?order \<subseteq> {..<?n}" using set_order by simp
  qed
  then show ?thesis
    by (simp add: analyse_def Let_def order events)
qed







text \<open>
  The handlers read the identity provider and the mail API through three fields of the
  environment only; everything else depends on the other fields.
\<close>

lemma ToString_same:
  assumes "number_to_string env' = number_to_string env" and "object_to_string env' = object_to_string env"
  shows "ToString env' x = ToString env x"
  using assms by (cases x) simp_all

lemma contentToAnalyze_same:
  assumes "number_to_string env' = number_to_string env" and "object_to_string env' = object_to_string env"
  shows "contentToAnalyze env' = contentToAnalyze env"
proof
  fix email
  show "contentToAnalyze env' email = contentToAnalyze env email"
    unfolding contentToAnalyze_def ToString_same [OF assms] ..
qed

lemma analysis_try_same:
  assumes "generateContent env' = generateContent env" and "JSON_parse env' = JSON_parse env"
  shows "analysis_try env' = analysis_try env"
proof (intro ext)
  fix i c
  show "analysis_try env' i c = analysis_try env i c"
    unfolding analysis_try_def assms ..
qed

lemma analyse_same:
  assumes "number_to_string env' = number_to_string env" and "object_to_string env' = object_to_string env"
    and "generateContent env' = generateContent env" and "JSON_parse env' = JSON_parse env"
  shows "settled (analyse v env' sched emails c') = settled (analyse v env sched emails c)"
    and "printed_before (analyse v env' sched emails c') = printed_before (analyse v env sched emails c)"
    and "printed_after (analyse v env' sched emails c') = printed_after (analyse v env sched emails c)"
proof -
  note same = contentToAnalyze_same [OF assms(1,2)] analysis_try_same [OF assms(3,4)]
  have defs: "settle_order env' = settle_order env" "callback_result v env' = callback_result v env"
    "callback_first env' = callback_first env" "callback_last env' = callback_last env"
    unfolding settle_order_def callback_result_def callback_first_def callback_last_def
      getGeminiAnalysis_def getGeminiAnalysis_printed_def same by (rule refl)+
  show "settled (analyse v env' sched emails c') = settled (analyse v env sched emails c)"
    unfolding analyse_def defs by (simp add: Let_def split: option.split prod.split)
  show "printed_before (analyse v env' sched emails c') = printed_before (analyse v env sched emails c)"
    unfolding analyse_def defs by (simp add: Let_def split: option.split prod.split)
  show "printed_after (analyse v env' sched emails c') = printed_after (analyse v env sched emails c)"
    unfolding analyse_def defs by (simp add: Let_def split: option.split prod.split)
qed

text \<open>The first two calls of a request whose token is renewed.\<close>

lemma first_calls:
  assumes "truthy (session_account s)"
    and "get_prop req_body ''searchQuery'' = Inr q"
    and "acquireTokenSilent env \<lparr>sr_account = session_account s, sr_scopes = scopes\<rparr> = Inr (Some r)"
    and "search_clause env q = Inr c"
  shows "take 2 (calls (fetch_emails v env sched req_body s)) =
     [AcquireTokenSilent \<lparr>sr_account = session_account s, sr_scopes = scopes\<rparr>,
      GraphGet (accessToken r) (messagesRequest c)]"
  using assms
  by (simp add: fetch_emails_def try_block_def Let_def respond_def failed_def analyse_def
        split: sum.split option.split jsval.split)

text \<open>Facts about the concrete environment.\<close>

lemma inbox_content:
  "i < length inbox \<Longrightarrow> contentToAnalyze example_env (inbox ! i) = Inr (inbox_texts ! i)"
proof -
  assume "i < length inbox"
  then have "i = 0 \<or> i = 1 \<or> i = 2"
    by (auto simp: inbox_def)
  then show ?thesis
    by (elim disjE)
       (simp_all add: inbox_def inbox_texts_def mail_def contentToAnalyze_def after_tag_def example_env_def)
qed

lemma alice_truthy: "truthy (session_account alice_session)"
  by (simp add: alice_session_def alice_def)

text \<open>What the object literal with the spread holds.\<close>

lemma map_of_set_prop: "map_of (set_prop k v kvs) = (map_of kvs)(k \<mapsto> v)"
  by (induction kvs) (auto simp: fun_eq_iff)

lemma keys_set_prop:
  "map fst (set_prop k v kvs) =
     (if k \<in> fst ` set kvs then map fst kvs else map fst kvs @ [k])"
proof (induction kvs)
  case Nil
  show ?case by simp
next
  case (Cons p kvs)
  obtain k' v' where p: "p = (k', v')" by (cases p)
  show ?case
  proof (cases "k' = k")
    case True
    with p show ?thesis by simp
  next
    case False
    with p Cons.IH show ?thesis by simp
  qed
qed

lemma contentToAnalyze_Obj:
  assumes "contentToAnalyze env email = Inr t"
  shows "email = Obj (own_props email)"
proof (cases email)
  case (Obj kvs)
  then show ?thesis by simp
qed (use assms in \<open>simp_all add: contentToAnalyze_def\<close>)

text \<open>The answer to a batch whose callbacks all reach their analysis call.\<close>

lemma fetch_emails_enriched:
  assumes "truthy (session_account s)"
    and "get_prop req_body ''searchQuery'' = Inr q"
    and "acquireTokenSilent env \<lparr>sr_account = session_account s, sr_scopes = scopes\<rparr> = Inr (Some r)"
    and "search_clause env q = Inr c"
    and "graph_get env (accessToken r) (messagesRequest c) = Inr messages"
    and "get_prop messages ''value'' = Inr (Arr emails)"
    and "\<forall>i<length emails. contentToAnalyze env (emails ! i) = Inr (texts ! i)"
    and "\<forall>i<length emails. i \<in> set sched"
  shows "reply (fetch_emails v env sched req_body s) =
           Replied \<lparr>status = 200, body = SendJson (Arr (map
             (\<lambda>i. spread_with_analysis (emails ! i) (getGeminiAnalysis v env i (texts ! i)))
             [0..<length emails]))\<rparr>"
proof -
  have "settled (try_block v env sched (session_account s) q) =
     Some (Inr (map (\<lambda>i. spread_with_analysis (emails ! i) (getGeminiAnalysis v env i (texts ! i)))
                 [0..<length emails]))"
    using assms(3-6) analyse_all_started [OF assms(7,8)]
    by (simp add: try_block_def Let_def)
  then show ?thesis
    using assms(1,2) by (simp add: fetch_emails_def Let_def respond_def)
qed

lemma inbox_content_terse:
  "i < length inbox \<Longrightarrow> contentToAnalyze terse_env (inbox ! i) = Inr (inbox_texts ! i)"
proof -
  have "contentToAnalyze terse_env = contentToAnalyze example_env"
    by (rule contentToAnalyze_same) (simp_all add: terse_env_def)
  then show "i < length inbox \<Longrightarrow> contentToAnalyze terse_env (inbox ! i) = Inr (inbox_texts ! i)"
    using inbox_content by simp
qed

lemma terse_analysis: "getGeminiAnalysis v terse_env i text = Obj []"
  by (simp add: getGeminiAnalysis_def analysis_try_def terse_env_def example_env_def jsonString_def
        js_trim_def js_white_space_def strip_lead_def parse_table_def answer_text_def)

section \<open>The properties\<close>

subsection \<open>C1: a batch is enriched item by item, in fetch order\<close>

text \<open>
  C1, as the code has it. Let the session hold an identity, let silent renewal succeed
  and let the mail API return a batch of N items, each with a textual \<^verbatim>\<open>body.content\<close>, so
  that every callback reaches its analysis call; let every analysis call complete, in
  whatever order \<open>sched\<close>. Then \<^verbatim>\<open>POST /fetch-emails\<close> answers 200 with exactly N items, in
  the order of the fetch and whatever \<open>sched\<close> is. The item at position \<open>i\<close> is an object
  with the properties of the fetched item at position \<open>i\<close>, in their order, and the
  property \<^verbatim>\<open>analysis\<close> (in place if the fetched item had one, at the end otherwise),
  whose value is what \<^verbatim>\<open>getGeminiAnalysis\<close> returned for that item: the fixed fallback
  record when the call was rejected, the text of the response could not be read or the
  text was not JSON, and the value of \<^verbatim>\<open>JSON.parse\<close>, whatever its shape, when the text was
  JSON.
\<close>

theorem fetch_emails_enriches_in_order:
  assumes "truthy (session_account s)"
    and "get_prop req_body ''searchQuery'' = Inr q"
    and "acquireTokenSilent env \<lparr>sr_account = session_account s, sr_scopes = scopes\<rparr> = Inr (Some r)"
    and "search_clause env q = Inr c"
    and "graph_get env (accessToken r) (messagesRequest c) = Inr messages"
    and "get_prop messages ''value'' = Inr (Arr emails)"
    and "\<forall>i<length emails. contentToAnalyze env (emails ! i) = Inr (texts ! i)"
    and "\<forall>i<length emails. i \<in> set sched"
  shows "reply (fetch_emails v env sched req_body s) =
           Replied \<lparr>status = 200, body = SendJson (Arr (map
             (\<lambda>i. spread_with_analysis (emails ! i) (getGeminiAnalysis v env i (texts ! i)))
             [0..<length emails]))\<rparr>
       \<and> (\<forall>i<length emails.
             emails ! i = Obj (own_props (emails ! i))
           \<and> (\<exists>kvs. spread_with_analysis (emails ! i) (getGeminiAnalysis v env i (texts ! i)) = Obj kvs
                \<and> map_of kvs = (map_of (own_props (emails ! i)))
                     (''analysis'' \<mapsto> getGeminiAnalysis v env i (texts ! i))
                \<and> map fst kvs =
                     (if ''analysis'' \<in> fst ` set (own_props (emails ! i))
                      then map fst (own_props (emails ! i))
                      else map fst (own_props (emails ! i)) @ [''analysis'']))
           \<and> (\<forall>e t. generateContent env i (prompt (texts ! i)) = Inl e \<or>
                  generateContent env i (prompt (texts ! i)) = Inr (Inl e) \<or>
                  (generateContent env i (prompt (texts ! i)) = Inr (Inr t) \<and>
                   JSON_parse env (jsonString t) = None)
                \<longrightarrow> getGeminiAnalysis v env i (texts ! i) = fallback v)
           \<and> (\<forall>t parsed. generateContent env i (prompt (texts ! i)) = Inr (Inr t) \<and>
                  JSON_parse env (jsonString t) = Some parsed
                \<longrightarrow> getGeminiAnalysis v env i (texts ! i) = parsed))"
proof (intro conjI allI impI)
  show "reply (fetch_emails v env sched req_body s) =
           Replied \<lparr>status = 200, body = SendJson (Arr (map
             (\<lambda>i. spread_with_analysis (emails ! i) (getGeminiAnalysis v env i (texts ! i)))
             [0..<length emails]))\<rparr>"
    by (rule fetch_emails_enriched [OF assms])
next
  fix i assume "i < length emails"
  with assms(7) have "contentToAnalyze env (emails ! i) = Inr (texts ! i)"
    by simp
  then show "emails ! i = Obj (own_props (emails ! i))"
    by (rule contentToAnalyze_Obj)
next
  fix i assume "i < length emails"
  let ?a = "getGeminiAnalysis v env i (texts ! i)"
  let ?kvs = "set_prop ''analysis'' ?a (own_props (emails ! i))"
  have "spread_with_analysis (emails ! i) ?a = Obj ?kvs"
    by (simp add: spread_with_analysis_def)
  moreover have "map_of ?kvs = (map_of (own_props (emails ! i)))(''analysis'' \<mapsto> ?a)"
    by (rule map_of_set_prop)
  moreover have "map fst ?kvs =
      (if ''analysis'' \<in> fst ` set (own_props (emails ! i))
       then map fst (own_props (emails ! i))
       else map fst (own_props (emails ! i)) @ [''analysis''])"
    by (rule keys_set_prop)
  ultimately show "\<exists>kvs. spread_with_analysis (emails ! i) ?a = Obj kvs
      \<and> map_of kvs = (map_of (own_props (emails ! i)))(''analysis'' \<mapsto> ?a)
      \<and> map fst kvs =
           (if ''analysis'' \<in> fst ` set (own_props (emails ! i))
            then map fst (own_props (emails ! i))
            else map fst (own_props (emails ! i)) @ [''analysis''])"
    by blast
next
  fix i e t
  assume "generateContent env i (prompt (texts ! i)) = Inl e \<or>
      generateContent env i (prompt (texts ! i)) = Inr (Inl e) \<or>
      (generateContent env i (prompt (texts ! i)) = Inr (Inr t) \<and>
       JSON_parse env (jsonString t) = None)"
  then show "getGeminiAnalysis v env i (texts ! i) = fallback v"
    by (auto simp: getGeminiAnalysis_def analysis_try_def)
next
  fix i t parsed
  assume "generateContent env i (prompt (texts ! i)) = Inr (Inr t) \<and>
      JSON_parse env (jsonString t) = Some parsed"
  then show "getGeminiAnalysis v env i (texts ! i) = parsed"
    by (simp add: getGeminiAnalysis_def analysis_try_def)
qed

text \<open>
  The scenario of the specification: three items, the analysis of the second fails, the
  calls complete in the order third, first, second. The answer holds the three messages
  in their order, the first and the third with the analysis that was parsed, the second
  with the fallback record.
\<close>

theorem fetch_emails_enriches_in_order_witness:
  "reply (fetch_emails Server_js example_env [2, 0, 1] (Obj []) alice_session) =
     Replied \<lparr>status = 200, body = SendJson (Arr
       [mail_with_analysis ''1'' ''RFI 12'' ''<p>Beam size?</p>'' answer,
        mail_with_analysis ''2'' ''Invoice'' ''Due <b>Friday</b>''
          (Obj [(''summary'', Str ''AI analysis failed.''), (''actionItems'', Arr []),
                (''sentiment'', Str ''Neutral''), (''docType'', Str ''Unknown'')]),
        mail_with_analysis ''3'' ''Hello'' ''See you'' answer])\<rparr>"
proof -
  have h2: "get_prop (Obj []) ''searchQuery'' = Inr Undefined"
    by simp
  have h3: "acquireTokenSilent example_env \<lparr>sr_account = session_account alice_session, sr_scopes = scopes\<rparr>
      = Inr (Some \<lparr>account = alice, accessToken = ''token-2''\<rparr>)"
    by (simp add: example_env_def alice_session_def)
  have h4: "search_clause example_env Undefined = Inr None"
    by (simp add: search_clause_def)
  have h5: "graph_get example_env (accessToken \<lparr>account = alice, accessToken = ''token-2''\<rparr>) (messagesRequest None)
      = Inr (Obj [(''value'', Arr inbox)])"
    by (simp add: example_env_def)
  have h6: "get_prop (Obj [(''value'', Arr inbox)]) ''value'' = Inr (Arr inbox)"
    by simp
  have h7: "\<forall>i<length inbox. contentToAnalyze example_env (inbox ! i) = Inr (inbox_texts ! i)"
    using inbox_content by simp
  have h8: "\<forall>i<length inbox. i \<in> set [2, 0, 1]"
    by (auto simp: inbox_def)
  have a0: "getGeminiAnalysis Server_js example_env 0 (inbox_texts ! 0) = answer"
    by (simp add: getGeminiAnalysis_def analysis_try_def example_env_def jsonString_def
          js_trim_def js_white_space_def strip_lead_def parse_table_def answer_text_def)
  have a1: "getGeminiAnalysis Server_js example_env (Suc 0) (inbox_texts ! Suc 0) = fallback Server_js"
    by (simp add: getGeminiAnalysis_def analysis_try_def example_env_def)
  have a2: "getGeminiAnalysis Server_js example_env 2 (inbox_texts ! 2) = answer"
    by (simp add: getGeminiAnalysis_def analysis_try_def example_env_def jsonString_def
          js_trim_def js_white_space_def strip_lead_def parse_table_def answer_text_def)
  have l: "[0..<length inbox] = [0, 1, 2]"
    by (simp add: inbox_def upt_rec)
  from fetch_emails_enriches_in_order [OF alice_truthy h2 h3 h4 h5 h6 h7 h8, of Server_js, THEN conjunct1]
  show ?thesis
    unfolding l
    by (simp add: a0 a1 a2 spread_with_analysis_def inbox_def mail_def mail_with_analysis_def
          fallback_def failure_summary_def)
qed

text \<open>
  C1 as stated fails where C2 does: when the service answers every text with an empty
  JSON object, none of the three analyses has the four fields, and the answer holds the
  three messages with that object as their analysis; none carries the fallback record.
\<close>

theorem fetch_emails_schema_counterexample:
  "reply (fetch_emails Server_js terse_env [0, 1, 2] (Obj []) alice_session) =
     Replied \<lparr>status = 200, body = SendJson (Arr
       [mail_with_analysis ''1'' ''RFI 12'' ''<p>Beam size?</p>'' (Obj []),
        mail_with_analysis ''2'' ''Invoice'' ''Due <b>Friday</b>'' (Obj []),
        mail_with_analysis ''3'' ''Hello'' ''See you'' (Obj [])])\<rparr>
   \<and> \<not> analysis_shape (Obj [])
   \<and> Obj [] \<noteq> fallback Server_js"
proof -
  have h2: "get_prop (Obj []) ''searchQuery'' = Inr Undefined"
    by simp
  have h3: "acquireTokenSilent terse_env \<lparr>sr_account = session_account alice_session, sr_scopes = scopes\<rparr>
      = Inr (Some \<lparr>account = alice, accessToken = ''token-2''\<rparr>)"
    by (simp add: terse_env_def example_env_def alice_session_def)
  have h4: "search_clause terse_env Undefined = Inr None"
    by (simp add: search_clause_def)
  have h5: "graph_get terse_env (accessToken \<lparr>account = alice, accessToken = ''token-2''\<rparr>) (messagesRequest None)
      = Inr (Obj [(''value'', Arr inbox)])"
    by (simp add: terse_env_def example_env_def)
  have h6: "get_prop (Obj [(''value'', Arr inbox)]) ''value'' = Inr (Arr inbox)"
    by simp
  have h7: "\<forall>i<length inbox. contentToAnalyze terse_env (inbox ! i) = Inr (inbox_texts ! i)"
    using inbox_content_terse by simp
  have h8: "\<forall>i<length inbox. i \<in> set [0, 1, 2]"
    by (auto simp: inbox_def)
  have l: "[0..<length inbox] = [0, 1, 2]"
    by (simp add: inbox_def upt_rec)
  from fetch_emails_enriched [OF alice_truthy h2 h3 h4 h5 h6 h7 h8, of Server_js]
  have "reply (fetch_emails Server_js terse_env [0, 1, 2] (Obj []) alice_session) =
     Replied \<lparr>status = 200, body = SendJson (Arr
       [mail_with_analysis ''1'' ''RFI 12'' ''<p>Beam size?</p>'' (Obj []),
        mail_with_analysis ''2'' ''Invoice'' ''Due <b>Friday</b>'' (Obj []),
        mail_with_analysis ''3'' ''Hello'' ''See you'' (Obj [])])\<rparr>"
    unfolding l
    by (simp add: terse_analysis spread_with_analysis_def inbox_def mail_def mail_with_analysis_def)
  then show ?thesis
    by (simp add: analysis_shape_def fallback_def)
qed

subsection \<open>C2: the analysis of a text falls back on failure\<close>

text \<open>
  C2, as the code has it. \<^verbatim>\<open>getGeminiAnalysis\<close> returns the fixed fallback record, with
  document type Unknown, sentiment Neutral, no action items and a summary that says the
  analysis failed, and prints the error, whenever the call to the service is rejected,
  the text of the response cannot be read, or the text cleaned of its fences is not
  JSON. A text that is JSON is returned as \<^verbatim>\<open>JSON.parse\<close> gives it, whatever its shape: the
  function has no check of the four fields.
\<close>

theorem getGeminiAnalysis_fallback:
  "(generateContent env i (prompt text) = Inl e \<or>
    generateContent env i (prompt text) = Inr (Inl e) \<or>
    (generateContent env i (prompt text) = Inr (Inr t) \<and> JSON_parse env (jsonString t) = None \<and>
     e = SyntaxError)
    \<longrightarrow> getGeminiAnalysis v env i text = fallback v \<and>
        getGeminiAnalysis_printed env i text =
          [ConsoleError [LStr ''Error calling Gemini API:'', LErr e]])
   \<and> (generateContent env i (prompt text) = Inr (Inr t) \<and> JSON_parse env (jsonString t) = Some parsed
    \<longrightarrow> getGeminiAnalysis v env i text = parsed \<and> getGeminiAnalysis_printed env i text = [])
   \<and> get_prop (fallback v) ''docType'' = Inr (Str ''Unknown'')
   \<and> get_prop (fallback v) ''sentiment'' = Inr (Str ''Neutral'')
   \<and> get_prop (fallback v) ''actionItems'' = Inr (Arr [])
   \<and> get_prop (fallback v) ''summary'' = Inr (Str (failure_summary v))
   \<and> analysis_shape (fallback v)"
  by (auto simp: getGeminiAnalysis_def getGeminiAnalysis_printed_def analysis_try_def
        fallback_def analysis_shape_def)

theorem getGeminiAnalysis_fallback_witness:
  "getGeminiAnalysis Server_js example_env 1 (inbox_texts ! 1) = fallback Server_js
   \<and> getGeminiAnalysis Part_001 example_env 1 (inbox_texts ! 1) = fallback Part_001
   \<and> getGeminiAnalysis Server_js example_env 0 (inbox_texts ! 0) = answer
   \<and> getGeminiAnalysis Server_js (example_env\<lparr>JSON_parse := \<lambda>s. None\<rparr>) 0 (inbox_texts ! 0) = fallback Server_js"
proof -
  let ?fenced = "''```json'' @ [nl] @ answer_text @ [nl] @ ''```''"
  have g1: "generateContent example_env 1 (prompt (inbox_texts ! 1)) = Inl (GenerativeError ''unavailable'')"
    by (simp add: example_env_def)
  have g0: "generateContent example_env 0 (prompt (inbox_texts ! 0)) = Inr (Inr ?fenced)"
    by (simp add: example_env_def)
  have p0: "JSON_parse example_env (jsonString ?fenced) = Some answer"
    by (simp add: example_env_def jsonString_def js_trim_def js_white_space_def strip_lead_def
          parse_table_def answer_text_def)
  have g0': "generateContent (example_env\<lparr>JSON_parse := \<lambda>s. None\<rparr>) 0 (prompt (inbox_texts ! 0)) = Inr (Inr ?fenced)"
    by (simp add: example_env_def)
  have p0': "JSON_parse (example_env\<lparr>JSON_parse := \<lambda>s. None\<rparr>) (jsonString ?fenced) = None"
    by simp
  from getGeminiAnalysis_fallback [of example_env 1 "inbox_texts ! 1" "GenerativeError ''unavailable''" _ Server_js] g1
  have "getGeminiAnalysis Server_js example_env 1 (inbox_texts ! 1) = fallback Server_js"
    by simp
  moreover
  from getGeminiAnalysis_fallback [of example_env 1 "inbox_texts ! 1" "GenerativeError ''unavailable''" _ Part_001] g1
  have "getGeminiAnalysis Part_001 example_env 1 (inbox_texts ! 1) = fallback Part_001"
    by simp
  moreover
  from getGeminiAnalysis_fallback [of example_env 0 "inbox_texts ! 0" _ ?fenced Server_js answer] g0 p0
  have "getGeminiAnalysis Server_js example_env 0 (inbox_texts ! 0) = answer"
    by simp
  moreover
  from getGeminiAnalysis_fallback [of "example_env\<lparr>JSON_parse := \<lambda>s. None\<rparr>" 0 "inbox_texts ! 0" SyntaxError ?fenced Server_js] g0' p0'
  have "getGeminiAnalysis Server_js (example_env\<lparr>JSON_parse := \<lambda>s. None\<rparr>) 0 (inbox_texts ! 0) = fallback Server_js"
    by simp
  ultimately show ?thesis by simp
qed

text \<open>
  C2 as stated fails: when the service answers with the text of an empty JSON object,
  the function returns that object, which has none of the four fields and is not the
  fallback record, in both variants of the source.
\<close>

theorem getGeminiAnalysis_schema_counterexample:
  "getGeminiAnalysis Server_js terse_env 0 ''Subject: Hello'' = Obj []
   \<and> getGeminiAnalysis Part_001 terse_env 0 ''Subject: Hello'' = Obj []
   \<and> \<not> analysis_shape (Obj [])
   \<and> Obj [] \<noteq> fallback Server_js \<and> Obj [] \<noteq> fallback Part_001"
  by (simp add: getGeminiAnalysis_def analysis_try_def terse_env_def example_env_def jsonString_def
        js_trim_def js_white_space_def strip_lead_def parse_table_def answer_text_def
        analysis_shape_def fallback_def)

subsection \<open>C3: the error mapping of \<^verbatim>\<open>POST /fetch-emails\<close>\<close>



subsection \<open>C4: the identity stored by the code exchange and the next \<^verbatim>\<open>/me\<close>\<close>

text \<open>
  When the exchange of the authorization code succeeds, \<^verbatim>\<open>GET /redirect\<close> stores in the
  session the account of the authentication result. When the session cookie is issued,
  the next request of the client finds that session, and \<^verbatim>\<open>GET /me\<close> answers that it is
  logged in, with an identity record equal to the one of the exchange.
\<close>

lemma redirect_then_me_cookie_issued:
  assumes "acquireTokenByCode env \<lparr>cr_code = code, cr_scopes = scopes, cr_redirectUri = redirectUri env\<rparr>
     = Inr (Some r)"
    and "session_cookie_issued env"
  shows "session_account (sess (redirect env code s)) = account r
     \<and> (account r = Obj fs \<longrightarrow>
          reply (me (next_request_session env (sess (redirect env code s)))) =
            Replied \<lparr>status = 200,
              body = SendJson (Obj [(''loggedIn'', Bool True), (''account'', account r)])\<rparr>)"
  using assms by (simp add: redirect_def me_def respond_def next_request_session_def)

lemma redirect_then_me_development:
  "session_account (sess (redirect example_env (Str ''validcode'') new_session)) = alice
   \<and> reply (me (next_request_session example_env
        (sess (redirect example_env (Str ''validcode'') new_session)))) =
       Replied \<lparr>status = 200,
         body = SendJson (Obj [(''loggedIn'', Bool True),
           (''account'', Obj [(''id'', Str ''u1''), (''name'', Str ''Alice'')])])\<rparr>"
proof -
  have x: "acquireTokenByCode example_env
      \<lparr>cr_code = Str ''validcode'', cr_scopes = scopes, cr_redirectUri = redirectUri example_env\<rparr>
      = Inr (Some \<lparr>account = alice, accessToken = ''token-1''\<rparr>)"
    by (simp add: example_env_def)
  have i: "session_cookie_issued example_env"
    by (simp add: session_cookie_issued_def cookie_secure_def example_env_def)
  from redirect_then_me_cookie_issued [OF x i, of new_session "[(''id'', Str ''u1''), (''name'', Str ''Alice'')]"]
  show ?thesis
    by (simp add: alice_def)
qed

text \<open>
  C4 is what the code sets out to do and misses in production. With
  \<^verbatim>\<open>NODE_ENV=production\<close> the exchange of the code \<^verbatim>\<open>validcode\<close> succeeds and
  \<^verbatim>\<open>GET /redirect\<close> stores the identity of Alice in the session; but the cookie is secure,
  the request is not, the session cookie is not issued, and the next \<^verbatim>\<open>GET /me\<close> of the
  same client answers \<^verbatim>\<open>loggedIn: false\<close>, without the identity record.
\<close>

theorem redirect_then_me_production:
  "reply (redirect production_env (Str ''validcode'') new_session) =
      Replied \<lparr>status = 200, body = SendText ''<script>window.close();</script>''\<rparr>
   \<and> session_account (sess (redirect production_env (Str ''validcode'') new_session)) = alice
   \<and> reply (me (next_request_session production_env
        (sess (redirect production_env (Str ''validcode'') new_session)))) =
       Replied \<lparr>status = 200, body = SendJson (Obj [(''loggedIn'', Bool False)])\<rparr>"
  by (simp add: redirect_def me_def respond_def next_request_session_def session_cookie_issued_def
        cookie_secure_def connection_secure_def production_env_def example_env_def new_session_def)

subsection \<open>C5: the access token is not disclosed\<close>

text \<open>
  C5. The access token obtained from the identity provider reaches the mail API and
  nothing else: if the identity provider hands out other tokens, and the mail API
  answers under them as it did under the original ones, then the reply, the session and
  the log of \<^verbatim>\<open>POST /fetch-emails\<close> and of \<^verbatim>\<open>GET /redirect\<close> are the same, on every path.
  So neither the response, nor the session, nor the log holds the token.
\<close>

theorem access_token_not_disclosed:
  assumes env': "env' = env\<lparr>acquireTokenSilent := \<lambda>rq. with_token f (acquireTokenSilent env rq),
                         acquireTokenByCode := \<lambda>rq. with_token f (acquireTokenByCode env rq),
                         graph_get := g\<rparr>"
    and g: "\<forall>t rq. g (f t) rq = graph_get env t rq"
  shows "disclosed (fetch_emails v env' sched req_body s) = disclosed (fetch_emails v env sched req_body s)
       \<and> disclosed (redirect env' code s) = disclosed (redirect env code s)"
proof
  have same: "number_to_string env' = number_to_string env" "object_to_string env' = object_to_string env"
      "generateContent env' = generateContent env" "JSON_parse env' = JSON_parse env"
    by (simp_all add: env')
  note an = analyse_same [OF same]
  have sc: "search_clause env' = search_clause env"
    unfolding search_clause_def ToString_same [OF same(1,2)] ..
  have tb: "settled (try_block v env' sched a q) = settled (try_block v env sched a q)
      \<and> printed_before (try_block v env' sched a q) = printed_before (try_block v env sched a q)
      \<and> printed_after (try_block v env' sched a q) = printed_after (try_block v env sched a q)" for a q
  proof (cases "acquireTokenSilent env \<lparr>sr_account = a, sr_scopes = scopes\<rparr>")
    case (Inl e)
    then show ?thesis
      by (simp add: try_block_def Let_def env' with_token_def failed_def)
  next
    case (Inr x)
    show ?thesis
    proof (cases x)
      case None
      with Inr show ?thesis
        by (simp add: try_block_def Let_def env' with_token_def failed_def)
    next
      case (Some r)
      have ats: "acquireTokenSilent env' \<lparr>sr_account = a, sr_scopes = scopes\<rparr> =
          Inr (Some (r\<lparr>accessToken := f (accessToken r)\<rparr>))"
        using Inr Some by (simp add: env' with_token_def)
      have gg: "graph_get env' (f (accessToken r)) rq = graph_get env (accessToken r) rq" for rq
        using g by (simp add: env')
      show ?thesis
        using Inr Some
        by (simp add: try_block_def Let_def ats sc gg an failed_def
              split: sum.split option.split jsval.split)
    qed
  qed
  show "disclosed (fetch_emails v env' sched req_body s) = disclosed (fetch_emails v env sched req_body s)"
    using tb
    by (simp add: disclosed_def fetch_emails_def Let_def respond_def split: sum.split option.split)
  have ru: "redirectUri env' = redirectUri env"
    by (simp add: redirectUri_def isProduction_def env')
  have abc: "acquireTokenByCode env' rq = with_token f (acquireTokenByCode env rq)" for rq
    by (simp add: env')
  show "disclosed (redirect env' code s) = disclosed (redirect env code s)"
    by (cases "acquireTokenByCode env \<lparr>cr_code = code, cr_scopes = scopes, cr_redirectUri = redirectUri env\<rparr>")
       (simp_all add: disclosed_def redirect_def Let_def respond_def ru abc with_token_def
          split: option.split)
qed

text \<open>
  In the scenario the mail API is called with \<^verbatim>\<open>token-2\<close>; with \<^verbatim>\<open>token-9\<close> in its place
  the call changes and nothing else does.
\<close>

theorem access_token_not_disclosed_witness:
  "disclosed (fetch_emails Server_js retokened_env [2, 0, 1] (Obj []) alice_session) =
     disclosed (fetch_emails Server_js example_env [2, 0, 1] (Obj []) alice_session)
   \<and> disclosed (redirect retokened_env (Str ''validcode'') new_session) =
     disclosed (redirect example_env (Str ''validcode'') new_session)
   \<and> take 2 (calls (fetch_emails Server_js example_env [2, 0, 1] (Obj []) alice_session)) =
     [AcquireTokenSilent \<lparr>sr_account = alice, sr_scopes = scopes\<rparr>,
      GraphGet ''token-2'' (messagesRequest None)]
   \<and> take 2 (calls (fetch_emails Server_js retokened_env [2, 0, 1] (Obj []) alice_session)) =
     [AcquireTokenSilent \<lparr>sr_account = alice, sr_scopes = scopes\<rparr>,
      GraphGet ''token-9'' (messagesRequest None)]"
proof -
  have g: "\<forall>t rq. graph_get example_env (other_token t) rq = graph_get example_env t rq"
    by (simp add: example_env_def)
  have b: "get_prop (Obj []) ''searchQuery'' = Inr Undefined"
    by simp
  have t2: "acquireTokenSilent example_env \<lparr>sr_account = session_account alice_session, sr_scopes = scopes\<rparr>
      = Inr (Some \<lparr>account = alice, accessToken = ''token-2''\<rparr>)"
    by (simp add: example_env_def alice_session_def)
  have t9: "acquireTokenSilent retokened_env \<lparr>sr_account = session_account alice_session, sr_scopes = scopes\<rparr>
      = Inr (Some \<lparr>account = alice, accessToken = ''token-9''\<rparr>)"
    by (simp add: retokened_env_def example_env_def alice_session_def with_token_def other_token_def)
  have s: "search_clause example_env Undefined = Inr None" "search_clause retokened_env Undefined = Inr None"
    by (simp_all add: search_clause_def)
  from access_token_not_disclosed [OF retokened_env_def g, THEN conjunct1]
    access_token_not_disclosed [OF retokened_env_def g, THEN conjunct2]
  have "disclosed (fetch_emails Server_js retokened_env [2, 0, 1] (Obj []) alice_session) =
     disclosed (fetch_emails Server_js example_env [2, 0, 1] (Obj []) alice_session)
   \<and> disclosed (redirect retokened_env (Str ''validcode'') new_session) =
     disclosed (redirect example_env (Str ''validcode'') new_session)"
    by simp
  moreover
  from first_calls [OF alice_truthy b t2 s(1), of Server_js "[2, 0, 1]"]
  have "take 2 (calls (fetch_emails Server_js example_env [2, 0, 1] (Obj []) alice_session)) =
     [AcquireTokenSilent \<lparr>sr_account = alice, sr_scopes = scopes\<rparr>,
      GraphGet ''token-2'' (messagesRequest None)]"
    by (simp add: alice_session_def)
  moreover
  from first_calls [OF alice_truthy b t9 s(2), of Server_js "[2, 0, 1]"]
  have "take 2 (calls (fetch_emails Server_js retokened_env [2, 0, 1] (Obj []) alice_session)) =
     [AcquireTokenSilent \<lparr>sr_account = alice, sr_scopes = scopes\<rparr>,
      GraphGet ''token-9'' (messagesRequest None)]"
    by (simp add: alice_session_def)
  ultimately show ?thesis by simp
qed

subsection \<open>C6: the search filter is passed through\<close>

text \<open>
  C6. For every filter that is a non-empty string, the request sent to the mail API has
  a search clause, and the clause is the text of the filter between two double quotes:
  the text is taken as it is, whatever its characters, neither parsed nor checked nor
  escaped, so the query that the mail API receives contains it unmodified.
\<close>

theorem search_filter_passed_through:
  assumes "filter_text \<noteq> []"
    and "truthy (session_account s)"
    and "map_of kvs ''searchQuery'' = Some (Str filter_text)"
    and "acquireTokenSilent env \<lparr>sr_account = session_account s, sr_scopes = scopes\<rparr> = Inr (Some r)"
  shows "take 2 (calls (fetch_emails v env sched (Obj kvs) s)) =
           [AcquireTokenSilent \<lparr>sr_account = session_account s, sr_scopes = scopes\<rparr>,
            GraphGet (accessToken r) (messagesRequest (Some ([CHR 0x22] @ filter_text @ [CHR 0x22])))]
       \<and> gr_search (messagesRequest (Some ([CHR 0x22] @ filter_text @ [CHR 0x22]))) =
           Some ([CHR 0x22] @ filter_text @ [CHR 0x22])
       \<and> sublist filter_text ([CHR 0x22] @ filter_text @ [CHR 0x22])"
proof -
  have b: "get_prop (Obj kvs) ''searchQuery'' = Inr (Str filter_text)"
    using assms(3) by simp
  have c: "search_clause env (Str filter_text) = Inr (Some ([CHR 0x22] @ filter_text @ [CHR 0x22]))"
    using assms(1) by (simp add: search_clause_def)
  have "sublist filter_text ([CHR 0x22] @ filter_text @ [CHR 0x22])"
    by (rule sublist_appendI)
  with first_calls [OF assms(2) b assms(4) c] show ?thesis
    by (simp add: messagesRequest_def)
qed

theorem search_filter_passed_through_witness:
  \<open>take 2 (calls (fetch_emails Server_js example_env [2, 0, 1]
       (Obj [(''searchQuery'', Str ''beam "S-102" OR'')]) alice_session)) =
     [AcquireTokenSilent \<lparr>sr_account = alice, sr_scopes = scopes\<rparr>,
      GraphGet ''token-2'' (messagesRequest (Some ''"beam "S-102" OR"''))]\<close>
proof -
  have "''beam '' @ [CHR 0x22] @ ''S-102'' @ [CHR 0x22] @ '' OR'' \<noteq> []"
    by simp
  moreover have "map_of [(''searchQuery'', Str (''beam '' @ [CHR 0x22] @ ''S-102'' @ [CHR 0x22] @ '' OR''))]
      ''searchQuery'' = Some (Str (''beam '' @ [CHR 0x22] @ ''S-102'' @ [CHR 0x22] @ '' OR''))"
    by simp
  moreover have "acquireTokenSilent example_env \<lparr>sr_account = session_account alice_session, sr_scopes = scopes\<rparr>
      = Inr (Some \<lparr>account = alice, accessToken = ''token-2''\<rparr>)"
    by (simp add: example_env_def alice_session_def)
  ultimately show ?thesis
    using search_filter_passed_through [where s = alice_session and env = example_env
      and v = Server_js and sched = "[2, 0, 1]"
      and filter_text = "''beam '' @ [CHR 0x22] @ ''S-102'' @ [CHR 0x22] @ '' OR''"
      and r = "\<lparr>account = alice, accessToken = ''token-2''\<rparr>"
      and kvs = "[(''searchQuery'', Str (''beam '' @ [CHR 0x22] @ ''S-102'' @ [CHR 0x22] @ '' OR''))]"]
      alice_truthy
    by (simp add: alice_session_def)
qed

subsection \<open>C7: logging out twice\<close>

text \<open>
  C7. \<^verbatim>\<open>GET /logout\<close> on the session that a first \<^verbatim>\<open>GET /logout\<close> has left answers 200 as
  the first did, and leaves that session as it was: without an identity. The handler has
  no failing path, whatever the session holds.
\<close>

theorem logout_twice:
  "reply (logout (sess (logout s))) =
      Replied \<lparr>status = 200, body = SendText ''Successfully logged out''\<rparr>
   \<and> sess (logout (sess (logout s))) = sess (logout s)
   \<and> session_account (sess (logout s)) = Undefined
   \<and> reply (logout new_session) =
      Replied \<lparr>status = 200, body = SendText ''Successfully logged out''\<rparr>"
  by (simp add: logout_def respond_def new_session_def)

theorem logout_twice_witness:
  "reply (logout (sess (logout alice_session))) =
      Replied \<lparr>status = 200, body = SendText ''Successfully logged out''\<rparr>
   \<and> sess (logout (sess (logout alice_session))) = sess (logout alice_session)
   \<and> session_account (sess (logout alice_session)) = Undefined"
  using logout_twice [of alice_session] by simp

subsection \<open>C8: what \<^verbatim>\<open>GET /me\<close> reports\<close>

text \<open>
  C8. On a session without an identity \<^verbatim>\<open>GET /me\<close> answers 200 with the one property
  \<^verbatim>\<open>loggedIn: false\<close>, and no identity record; on a session that holds an identity record
  it answers 200 with \<^verbatim>\<open>loggedIn: true\<close> and that record.
\<close>

theorem me_reports_identity:
  "(session_account s = Undefined \<longrightarrow>
      reply (me s) = Replied \<lparr>status = 200, body = SendJson (Obj [(''loggedIn'', Bool False)])\<rparr>)
   \<and> (session_account s = Obj fs \<longrightarrow>
      reply (me s) = Replied \<lparr>status = 200,
        body = SendJson (Obj [(''loggedIn'', Bool True), (''account'', Obj fs)])\<rparr>)"
  by (simp add: me_def respond_def)

theorem me_reports_identity_witness:
  "reply (me new_session) =
      Replied \<lparr>status = 200, body = SendJson (Obj [(''loggedIn'', Bool False)])\<rparr>
   \<and> reply (me alice_session) = Replied \<lparr>status = 200,
        body = SendJson (Obj [(''loggedIn'', Bool True),
          (''account'', Obj [(''id'', Str ''u1''), (''name'', Str ''Alice'')])])\<rparr>"
  using me_reports_identity [of new_session]
    me_reports_identity [of alice_session "[(''id'', Str ''u1''), (''name'', Str ''Alice'')]"]
  by (simp add: new_session_def alice_session_def alice_def)

subsection \<open>C9: \<^verbatim>\<open>POST /fetch-emails\<close> leaves the session as it is\<close>

text \<open>
  C9. Whatever the request, the environment and the outcome, the session after
  \<^verbatim>\<open>POST /fetch-emails\<close> is the session before it. The same holds of \<^verbatim>\<open>GET /me\<close> and
  \<^verbatim>\<open>GET /login\<close>: only \<^verbatim>\<open>GET /redirect\<close> and \<^verbatim>\<open>GET /logout\<close> write the session.
\<close>

theorem fetch_emails_keeps_session:
  "sess (fetch_emails v env sched req_body s) = s \<and> sess (me s) = s \<and> sess (login env s) = s"
  by (simp add: fetch_emails_def me_def login_def respond_def Let_def split: sum.split option.split)

theorem fetch_emails_keeps_session_witness:
  "sess (fetch_emails Server_js example_env [2, 0, 1] (Obj []) alice_session) = alice_session
   \<and> sess (fetch_emails Server_js expired_env [] (Obj []) alice_session) = alice_session
   \<and> sess (fetch_emails Server_js offline_env [] (Obj []) alice_session) = alice_session
   \<and> sess (fetch_emails Server_js example_env [] (Obj []) new_session) = new_session"
  using fetch_emails_keeps_session [of Server_js example_env "[2, 0, 1]" "Obj []" alice_session]
    fetch_emails_keeps_session [of Server_js expired_env "[]" "Obj []" alice_session]
    fetch_emails_keeps_session [of Server_js offline_env "[]" "Obj []" alice_session]
    fetch_emails_keeps_session [of Server_js example_env "[]" "Obj []" new_session]
  by simp

subsection \<open>C10: an empty search query is no search query\<close>

text \<open>
  C10. A request whose body has \<^verbatim>\<open>searchQuery\<close> equal to the empty string has the outcome
  of a request whose body has no \<^verbatim>\<open>searchQuery\<close>: the same reply, session, log and calls;
  in both no search clause is added to the mail request.
\<close>

theorem empty_search_query_absent:
  assumes "map_of kvs ''searchQuery'' = Some (Str '''')"
    and "map_of kvs' ''searchQuery'' = None"
  shows "fetch_emails v env sched (Obj kvs) s = fetch_emails v env sched (Obj kvs') s
       \<and> search_clause env (Str '''') = Inr None \<and> search_clause env Undefined = Inr None"
proof -
  have e: "search_clause env (Str []) = Inr None" "search_clause env Undefined = Inr None"
    by (simp_all add: search_clause_def)
  have "try_block v env sched (session_account s) (Str []) =
      try_block v env sched (session_account s) Undefined"
    unfolding try_block_def e ..
  then show ?thesis
    using e by (simp add: fetch_emails_def assms)
qed

theorem empty_search_query_absent_witness:
  "fetch_emails Server_js example_env [2, 0, 1] (Obj [(''searchQuery'', Str '''')]) alice_session =
   fetch_emails Server_js example_env [2, 0, 1] (Obj []) alice_session"
  using empty_search_query_absent [of "[(''searchQuery'', Str '''')]" "[]" Server_js example_env
    "[2, 0, 1]" alice_session]
  by simp

end
